theory Spec2Isabelle
  imports Main "HOL-Library.Sublist"
begin

section \<open>JavaScript strings\<close>

text \<open>
  A JavaScript string is a sequence of code units. The model uses \<open>string\<close> (a list of
  \<open>char\<close>), that is, the code units below 256. Whatever the library does to a string,
  it does to its code units one at a time, so nothing here depends on the width of a unit.
\<close>

abbreviation backslash :: char where "backslash \<equiv> CHR 0x5C"
abbreviation squote :: char where "squote \<equiv> CHR 0x27"
abbreviation dquote :: char where "dquote \<equiv> CHR 0x22"
abbreviation backtick :: char where "backtick \<equiv> CHR 0x60"

text \<open>The white space \<open>String.prototype.trim\<close> strips, among the code units below 256:
  tab, line feed, vertical tab, form feed, carriage return, space and no-break space.\<close>

definition isWhiteSpace :: "char \<Rightarrow> bool" where
  "isWhiteSpace c =
     (c = CHR 0x09 \<or> c = CHR 0x0A \<or> c = CHR 0x0B \<or> c = CHR 0x0C \<or> c = CHR 0x0D \<or>
      c = CHR 0x20 \<or> c = CHR 0xA0)"

definition trim :: "string \<Rightarrow> string" where
  "trim s = rev (dropWhile isWhiteSpace (rev (dropWhile isWhiteSpace s)))"

text \<open>The line terminators the regular expression atom \<open>.\<close> refuses.\<close>

definition isLineTerminator :: "char \<Rightarrow> bool" where
  "isLineTerminator c = (c = CHR 0x0A \<or> c = CHR 0x0D)"

text \<open>\<open>s.slice(a, b)\<close>: a negative index counts from the end, both are clamped.\<close>

definition slice :: "string \<Rightarrow> int \<Rightarrow> int \<Rightarrow> string" where
  "slice s a b =
     (let len = int (length s);
          from = (if a < 0 then max (len + a) 0 else min a len);
          to = (if b < 0 then max (len + b) 0 else min b len)
      in take (nat (to - from)) (drop (nat from) s))"

text \<open>\<open>content[i + 1] === c\<close>, where \<open>rest\<close> holds the code units after index \<open>i\<close>:
  past the end the read is \<open>undefined\<close> and the comparison is false.\<close>

fun nextIs :: "char \<Rightarrow> string \<Rightarrow> bool" where
  "nextIs c [] = False"
| "nextIs c (d # rest) = (d = c)"

text \<open>\<open>s.indexOf(pat)\<close>: the first index at which \<open>pat\<close> occurs, or \<open>-1\<close>.\<close>

fun indexOfFrom :: "string \<Rightarrow> string \<Rightarrow> nat \<Rightarrow> int" where
  "indexOfFrom [] pat i = (if pat = [] then int i else -1)"
| "indexOfFrom (c # cs) pat i =
     (if prefix pat (c # cs) then int i else indexOfFrom cs pat (Suc i))"

definition indexOf :: "string \<Rightarrow> string \<Rightarrow> int" where
  "indexOf s pat = indexOfFrom s pat 0"

definition includesStr :: "string \<Rightarrow> string \<Rightarrow> bool" where
  "includesStr s pat = (indexOf s pat \<noteq> -1)"

text \<open>
  The replacement text of \<open>replace\<close> and \<open>replaceAll\<close> with a string pattern
  (ECMAScript's GetSubstitution with no captures): \<open>$$\<close> is a dollar sign, \<open>$&\<close> the
  matched text, \<open>$`\<close> the text before the match, \<open>$'\<close> the text after it; any other
  dollar sign stands for itself.
\<close>

fun getSubstitution :: "string \<Rightarrow> string \<Rightarrow> nat \<Rightarrow> string \<Rightarrow> string" where
  "getSubstitution m str pos [] = []"
| "getSubstitution m str pos [c] = [c]"
| "getSubstitution m str pos (c # d # r) =
     (if c = CHR ''$'' \<and> d = CHR ''$'' then CHR ''$'' # getSubstitution m str pos r
      else if c = CHR ''$'' \<and> d = CHR ''&'' then m @ getSubstitution m str pos r
      else if c = CHR ''$'' \<and> d = backtick then take pos str @ getSubstitution m str pos r
      else if c = CHR ''$'' \<and> d = squote
        then drop (pos + length m) str @ getSubstitution m str pos r
      else c # getSubstitution m str pos (d # r))"

text \<open>\<open>s.replace(pat, repl)\<close> with a string pattern: the first occurrence only.\<close>

definition replaceFirst :: "string \<Rightarrow> string \<Rightarrow> string \<Rightarrow> string" where
  "replaceFirst s pat repl =
     (let p = indexOf s pat in
      if p = -1 then s
      else take (nat p) s @ getSubstitution pat s (nat p) repl @ drop (nat p + length pat) s)"

text \<open>\<open>s.replaceAll(pat, repl)\<close> with a string pattern: every occurrence, left to right,
  the search resuming after each match; \<open>whole\<close> is \<open>s\<close>, \<open>rest\<close> what is left of it
  from index \<open>i\<close> on.\<close>

function replaceAllFrom :: "string \<Rightarrow> string \<Rightarrow> nat \<Rightarrow> string \<Rightarrow> string \<Rightarrow> string" where
  "replaceAllFrom whole [] i pat repl =
     (if pat = [] then getSubstitution pat whole i repl else [])"
| "replaceAllFrom whole (c # cs) i pat repl =
     (if prefix pat (c # cs) then
        getSubstitution pat whole i repl @
          (if pat = [] then c # replaceAllFrom whole cs (Suc i) pat repl
           else replaceAllFrom whole (drop (length pat) (c # cs)) (i + length pat) pat repl)
      else c # replaceAllFrom whole cs (Suc i) pat repl)"
  by pat_completeness auto
termination
  by (relation "measure (\<lambda>(whole, rest, i, pat, repl). length rest)") auto

definition replaceAll :: "string \<Rightarrow> string \<Rightarrow> string \<Rightarrow> string" where
  "replaceAll s pat repl = replaceAllFrom s s 0 pat repl"

text \<open>\<open>parts.join(sep)\<close> on an array of strings.\<close>

fun join :: "string \<Rightarrow> string list \<Rightarrow> string" where
  "join sep [] = []"
| "join sep [x] = x"
| "join sep (x # y # ys) = x @ sep @ join sep (y # ys)"

text \<open>\<open>s.split(d)\<close> with a one-character separator: never empty, \<open>''''.split(d)\<close> is
  \<open>['''']\<close>.\<close>

fun split :: "char \<Rightarrow> string \<Rightarrow> string list" where
  "split d [] = [[]]"
| "split d (c # cs) =
     (if c = d then [] # split d cs
      else (case split d cs of [] \<Rightarrow> [[c]] | p # ps \<Rightarrow> (c # p) # ps))"

text \<open>A \<open>Set<string>\<close> keeps its members in insertion order; \<open>add\<close> of a member changes
  nothing.\<close>

definition setAdd :: "string \<Rightarrow> string list \<Rightarrow> string list" where
  "setAdd x xs = (if x \<in> set xs then xs else xs @ [x])"

section \<open>PlaceholderParser\<close>

text \<open>\<open>isPlaceholder\<close>: the regular expression \<open>/^{{.+}}$/\<close> on the trimmed value. It
  matches when the value opens with two braces, closes with two braces, and at least one
  code unit, none of them a line terminator, stands between.\<close>

definition isPlaceholder :: "string \<Rightarrow> bool" where
  "isPlaceholder v =
     (let t = trim v in
      5 \<le> length t \<and> take 2 t = ''{{'' \<and> drop (length t - 2) t = ''}}'' \<and>
      list_all (\<lambda>c. \<not> isLineTerminator c) (take (length t - 4) (drop 2 t)))"

text \<open>
  The loop of \<open>findPlaceholdersRecursive\<close>. \<open>rest\<close> holds the code units of \<open>content\<close>
  from index \<open>i\<close> on; \<open>depth\<close> and \<open>start\<close> are the loop's variables (\<open>start = -1\<close>: none
  recorded), \<open>placeholders\<close> the set being filled. A closing pair that brings the depth
  back to zero adds the span from \<open>start\<close> and scans its interior with fresh variables.
\<close>

function findPlaceholdersLoop ::
  "string \<Rightarrow> string \<Rightarrow> nat \<Rightarrow> int \<Rightarrow> int \<Rightarrow> string list \<Rightarrow> string list" where
  "findPlaceholdersLoop content [] i depth start placeholders = placeholders"
| "findPlaceholdersLoop content (c # rest) i depth start placeholders =
     (if c = CHR ''{'' \<and> nextIs (CHR ''{'') rest then
        findPlaceholdersLoop content (tl rest) (i + 2) (depth + 1)
          (if depth = 0 then int i else start) placeholders
      else if c = CHR ''}'' \<and> nextIs (CHR ''}'') rest then
        (if depth - 1 = 0 \<and> start \<noteq> -1 then
           findPlaceholdersLoop content (tl rest) (i + 2) (depth - 1) start
             (findPlaceholdersLoop
                (slice (slice content start (int i + 2)) 2 (-2))
                (slice (slice content start (int i + 2)) 2 (-2)) 0 0 (-1)
                (setAdd (slice content start (int i + 2)) placeholders))
         else findPlaceholdersLoop content (tl rest) (i + 2) (depth - 1) start placeholders)
      else findPlaceholdersLoop content rest (i + 1) depth start placeholders)"
  by pat_completeness auto

lemma length_slice_le: "length (slice s a b) \<le> length s"
proof -
  have "length (take n (drop m s)) \<le> length s" for n m
    by simp
  then show ?thesis
    unfolding slice_def Let_def by blast
qed

lemma length_slice_inner: "length (slice p 2 (-2)) \<le> length p - 4"
  by (simp add: slice_def Let_def)

lemma length_inner_less:
  assumes "slice (slice content a b) 2 (-2) \<noteq> []"
  shows "length (slice (slice content a b) 2 (-2)) < length content"
proof -
  let ?p = "slice content a b"
  have "0 < length (slice ?p 2 (-2))"
    using assms by simp
  then have "length (slice ?p 2 (-2)) < length ?p"
    using length_slice_inner [of ?p] by linarith
  then show ?thesis
    using length_slice_le [of content a b] by linarith
qed

termination findPlaceholdersLoop
proof (relation "measures
    [\<lambda>(content, rest, i, depth, start, placeholders).
        length content + (if rest = [] then 0 else 1),
     \<lambda>(content, rest, i, depth, start, placeholders). length rest]", goal_cases)
  case 1
  show ?case by simp
next
  case (2 content c rest i depth start placeholders)
  then show ?case by (cases rest) auto
next
  case (3 content c rest i depth start placeholders)
  show ?case
  proof (cases "slice (slice content start (int i + 2)) 2 (-2) = []")
    case True
    then show ?thesis by simp
  next
    case False
    from length_inner_less [OF False] False show ?thesis by simp
  qed
next
  case (4 content c rest i depth start placeholders)
  then show ?case by (cases rest) auto
next
  case (5 content c rest i depth start placeholders)
  then show ?case by (cases rest) auto
next
  case (6 content c rest i depth start placeholders)
  then show ?case by auto
qed

definition findPlaceholdersRecursive :: "string \<Rightarrow> string list \<Rightarrow> string list" where
  "findPlaceholdersRecursive content placeholders =
     findPlaceholdersLoop content content 0 0 (-1) placeholders"

definition findPlaceholders :: "string \<Rightarrow> string list" where
  "findPlaceholders content = findPlaceholdersRecursive content []"

text \<open>An \<open>Error\<close> object, by its message.\<close>

datatype error = Error string

text \<open>Modelled from the spec: the type declarations of \<open>core/types.ts\<close> are not among
  the sources. A parsed transform is the spec's TransformSpec, a name and its parameters,
  as \<open>parseTransform\<close> builds it.\<close>

record ParsedTransform =
  name :: string
  params :: "string list"

text \<open>Modelled from the spec: \<open>ParsedPlaceholder\<close>, declared in \<open>core/types.ts\<close>, with
  the fields of the spec's data model, which are the fields \<open>parse\<close> fills.\<close>

record ParsedPlaceholder =
  original :: string
  module :: string
  action :: string
  args :: "string list"
  transforms :: "ParsedTransform list"

text \<open>The loop of \<open>splitByPipe\<close>, over the code units still to read. An opening or
  closing pair changes the depth and appends its first brace only: the second one is read
  again in the next round.\<close>

fun splitByPipeLoop :: "string \<Rightarrow> string \<Rightarrow> int \<Rightarrow> string list \<Rightarrow> string \<times> string list" where
  "splitByPipeLoop [] current depth parts = (current, parts)"
| "splitByPipeLoop (c # rest) current depth parts =
     (if c = CHR ''{'' \<and> nextIs (CHR ''{'') rest then
        splitByPipeLoop rest (current @ [c]) (depth + 1) parts
      else if c = CHR ''}'' \<and> nextIs (CHR ''}'') rest then
        splitByPipeLoop rest (current @ [c]) (depth - 1) parts
      else if c = CHR ''|'' \<and> depth = 0 then
        splitByPipeLoop rest [] depth (parts @ [trim current])
      else splitByPipeLoop rest (current @ [c]) depth parts)"

definition splitByPipe :: "string \<Rightarrow> string list" where
  "splitByPipe content =
     (case splitByPipeLoop content [] 0 [] of
        (current, parts) \<Rightarrow> if current \<noteq> [] then parts @ [trim current] else parts)"

text \<open>The loop of \<open>splitByColon\<close>: as above, and a backslash before a colon appends the
  colon and skips it.\<close>

fun splitByColonLoop :: "string \<Rightarrow> string \<Rightarrow> int \<Rightarrow> string list \<Rightarrow> string \<times> string list" where
  "splitByColonLoop [] current depth parts = (current, parts)"
| "splitByColonLoop (c # rest) current depth parts =
     (if c = CHR ''{'' \<and> nextIs (CHR ''{'') rest then
        splitByColonLoop rest (current @ [c]) (depth + 1) parts
      else if c = CHR ''}'' \<and> nextIs (CHR ''}'') rest then
        splitByColonLoop rest (current @ [c]) (depth - 1) parts
      else if c = backslash \<and> nextIs (CHR '':'') rest then
        splitByColonLoop (tl rest) (current @ '':'') depth parts
      else if c = CHR '':'' \<and> depth = 0 then
        splitByColonLoop rest [] depth (parts @ [trim current])
      else splitByColonLoop rest (current @ [c]) depth parts)"

definition splitByColon :: "string \<Rightarrow> string list" where
  "splitByColon content =
     (case splitByColonLoop content [] 0 [] of
        (current, parts) \<Rightarrow> if current \<noteq> [] then parts @ [trim current] else parts)"

definition parseMainPart :: "string \<Rightarrow> error + (string \<times> string \<times> string list)" where
  "parseMainPart mainPart =
     (let parts = splitByColon mainPart in
      if length parts < 2 then
        Inl (Error (''Invalid placeholder format. Expected at least module:action, got: ''
                    @ mainPart))
      else Inr (trim (parts ! 0), trim (parts ! 1), map trim (drop 2 parts)))"

definition parseTransform :: "string \<Rightarrow> ParsedTransform" where
  "parseTransform transformStr =
     (let parts = map trim (split (CHR '':'') transformStr) in
      \<lparr>name = hd parts, params = tl parts\<rparr>)"

text \<open>\<open>parse\<close>. Were \<open>splitByPipe\<close> to return no part, \<open>mainPart\<close> would be
  \<open>undefined\<close> and reading its length would throw a \<open>TypeError\<close>.\<close>

definition parse :: "string \<Rightarrow> error + ParsedPlaceholder" where
  "parse placeholder =
     (let trimmed = trim placeholder in
      if \<not> isPlaceholder trimmed then
        Inl (Error (''Invalid placeholder format: '' @ placeholder))
      else
        (case splitByPipe (slice trimmed 2 (-2)) of
           [] \<Rightarrow> Inl (Error ''Cannot read properties of undefined (reading 'length')'')
         | mainPart # transformParts \<Rightarrow>
             (case parseMainPart mainPart of
                Inl e \<Rightarrow> Inl e
              | Inr (m, a, as) \<Rightarrow>
                  Inr \<lparr>original = trimmed, module = m, action = a, args = as,
                       transforms = map parseTransform transformParts\<rparr>)))"

section \<open>Values, plugins and the registry\<close>

text \<open>
  What a plugin resolves to, and what a parsed JSON document consists of. Numbers are
  modelled by the integers; an object is the list of its own enumerable entries, in the
  order \<open>Object.entries\<close> gives them.
\<close>

datatype jsvalue =
    JNull
  | JBool bool
  | JNumber int
  | JString string
  | JArray "jsvalue list"
  | JObject "(string \<times> jsvalue) list"

text \<open>Modelled from the spec: \<open>PlaceholderResult\<close>, declared in \<open>core/types.ts\<close>, is
  the spec's TypedValue: a value and the tag that names its type.\<close>

datatype ResultType = TString | TNumber | TBoolean | TObject | TArray | TNull

record PlaceholderResult =
  "value" :: jsvalue
  "type" :: ResultType

text \<open>The type a JSON reader sees in a value.\<close>

fun typeOf :: "jsvalue \<Rightarrow> ResultType" where
  "typeOf JNull = TNull"
| "typeOf (JBool b) = TBoolean"
| "typeOf (JNumber n) = TNumber"
| "typeOf (JString s) = TString"
| "typeOf (JArray xs) = TArray"
| "typeOf (JObject kvs) = TObject"

text \<open>A plugin's \<open>resolve\<close> takes the parsed placeholder and the context of the request
  and returns a result or throws (the request also carries the registry, which no plugin
  of the repository reads); a transform's \<open>apply\<close> takes a result and the parameters.
  An asynchronous \<open>resolve\<close> is awaited at once, so it is modelled by what it returns.\<close>

type_synonym 'c plugin = "ParsedPlaceholder \<Rightarrow> 'c \<Rightarrow> error + PlaceholderResult"
type_synonym transform = "PlaceholderResult \<Rightarrow> string list \<Rightarrow> error + PlaceholderResult"

text \<open>The registry's two \<open>Map\<close>s, as lists of entries in insertion order.\<close>

record 'c PluginRegistry =
  plugins :: "(string \<times> 'c plugin) list"
  transformImpls :: "(string \<times> transform) list"

text \<open>Modelled from the spec: \<open>ProcessOptions\<close>, declared in \<open>core/types.ts\<close>, with
  the three fields the processors read; \<open>options.context || {}\<close> is the context.\<close>

record 'c ProcessOptions =
  includePlugins :: "string list option"
  excludePlugins :: "string list option"
  "context" :: 'c

definition getPlugin :: "'c PluginRegistry \<Rightarrow> string \<Rightarrow> error + 'c plugin" where
  "getPlugin registry n =
     (case map_of (plugins registry) n of
        Some plugin \<Rightarrow> Inr plugin
      | None \<Rightarrow>
          (let available = join '', '' (map fst (plugins registry)) in
           Inl (Error (''Plugin '' @ [squote] @ n @ [squote] @ '' not found. Available plugins: ''
                       @ (if available = [] then ''none'' else available)))))"

definition getTransform :: "'c PluginRegistry \<Rightarrow> string \<Rightarrow> error + transform" where
  "getTransform registry n =
     (case map_of (transformImpls registry) n of
        Some t \<Rightarrow> Inr t
      | None \<Rightarrow>
          (let available = join '', '' (map fst (transformImpls registry)) in
           Inl (Error (''Transform '' @ [squote] @ n @ [squote]
                       @ '' not found. Available transforms: ''
                       @ (if available = [] then ''none'' else available)))))"

text \<open>The loop over \<open>parsed.transforms\<close>.\<close>

fun applyTransforms ::
  "'c PluginRegistry \<Rightarrow> ParsedTransform list \<Rightarrow> PlaceholderResult \<Rightarrow> error + PlaceholderResult" where
  "applyTransforms registry [] result = Inr result"
| "applyTransforms registry (t # ts) result =
     (case getTransform registry (name t) of
        Inl e \<Rightarrow> Inl e
      | Inr transformImpl \<Rightarrow>
          (case transformImpl result (params t) of
             Inl e \<Rightarrow> Inl e
           | Inr result' \<Rightarrow> applyTransforms registry ts result'))"

text \<open>Decimal digits of a natural number, and \<open>String(n)\<close> for an integer.\<close>

fun showNat :: "nat \<Rightarrow> string" where
  "showNat n =
     (if n < 10 then [''0123456789'' ! n]
      else showNat (n div 10) @ [''0123456789'' ! (n mod 10)])"

declare showNat.simps [simp del]

definition showInt :: "int \<Rightarrow> string" where
  "showInt n = (if n < 0 then CHR ''-'' # showNat (nat (- n)) else showNat (nat n))"

text \<open>\<open>String(v)\<close>: an array joins its elements with commas, \<open>null\<close> elements as empty
  strings; an object is \<open>[object Object]\<close>.\<close>

fun toStr :: "jsvalue \<Rightarrow> string" where
  "toStr JNull = ''null''"
| "toStr (JBool b) = (if b then ''true'' else ''false'')"
| "toStr (JNumber n) = showInt n"
| "toStr (JString s) = s"
| "toStr (JArray xs) = join '','' (map (\<lambda>x. if x = JNull then [] else toStr x) xs)"
| "toStr (JObject kvs) = ''[object Object]''"

section \<open>JsonProcessor\<close>

text \<open>\<open>resolvePlaceholder\<close>: the body of the \<open>try\<close>, then the \<open>catch\<close> that wraps
  the message with the placeholder and the path.\<close>

definition resolveJsonTry ::
  "'c PluginRegistry \<Rightarrow> 'c ProcessOptions \<Rightarrow> string \<Rightarrow> error + jsvalue" where
  "resolveJsonTry registry options placeholder =
     (case parse placeholder of
        Inl e \<Rightarrow> Inl e
      | Inr parsed \<Rightarrow>
          if (case includePlugins options of
                None \<Rightarrow> False | Some inc \<Rightarrow> module parsed \<notin> set inc)
          then Inr (JString placeholder)
          else if (case excludePlugins options of
                     None \<Rightarrow> False | Some exc \<Rightarrow> module parsed \<in> set exc)
          then Inr (JString placeholder)
          else
            (case getPlugin registry (module parsed) of
               Inl e \<Rightarrow> Inl e
             | Inr plugin \<Rightarrow>
                 (case plugin parsed (context options) of
                    Inl e \<Rightarrow> Inl e
                  | Inr result \<Rightarrow>
                      (case applyTransforms registry (transforms parsed) result of
                         Inl e \<Rightarrow> Inl e
                       | Inr result' \<Rightarrow> Inr (value result')))))"

definition resolvePlaceholder ::
  "'c PluginRegistry \<Rightarrow> 'c ProcessOptions \<Rightarrow> string \<Rightarrow> string list \<Rightarrow> error + jsvalue" where
  "resolvePlaceholder registry options placeholder path =
     (case resolveJsonTry registry options placeholder of
        Inl (Error msg) \<Rightarrow>
          Inl (Error (''Failed to resolve placeholder '' @ [dquote] @ placeholder @ [dquote]
                      @ '' at path '' @ [dquote] @ join ''.'' path @ [dquote] @ '': '' @ msg))
      | Inr v \<Rightarrow> Inr v)"

text \<open>
  \<open>sortPlaceholdersByPosition\<close>: each placeholder with the index of its first occurrence
  and the end of that occurrence, sorted by the comparator. \<open>Array.prototype.sort\<close> is
  stable; it is modelled by insertion sort.
\<close>

definition comparePositions :: "string \<times> int \<times> int \<Rightarrow> string \<times> int \<times> int \<Rightarrow> int" where
  "comparePositions a b =
     (case (a, b) of ((pa, sa, ea), (pb, sb, eb)) \<Rightarrow>
        if sa \<ge> sb \<and> ea \<le> eb then -1
        else if sb \<ge> sa \<and> eb \<le> ea then 1
        else sa - sb)"

fun insertBy :: "('a \<Rightarrow> 'a \<Rightarrow> int) \<Rightarrow> 'a \<Rightarrow> 'a list \<Rightarrow> 'a list" where
  "insertBy cmp x [] = [x]"
| "insertBy cmp x (y # ys) = (if cmp x y \<le> 0 then x # y # ys else y # insertBy cmp x ys)"

fun sortBy :: "('a \<Rightarrow> 'a \<Rightarrow> int) \<Rightarrow> 'a list \<Rightarrow> 'a list" where
  "sortBy cmp [] = []"
| "sortBy cmp (x # xs) = insertBy cmp x (sortBy cmp xs)"

definition sortPlaceholdersByPosition :: "string \<Rightarrow> string list \<Rightarrow> string list" where
  "sortPlaceholdersByPosition content placeholders =
     map fst (sortBy comparePositions
       (map (\<lambda>ph. (ph, indexOf content ph, indexOf content ph + int (length ph))) placeholders))"

text \<open>\<open>currentPlaceholders.some(other => other !== placeholder &&
  placeholder.includes(other))\<close>.\<close>

definition containsOthers :: "string list \<Rightarrow> string \<Rightarrow> bool" where
  "containsOthers currentPlaceholders placeholder =
     list_ex (\<lambda>other. other \<noteq> placeholder \<and> includesStr placeholder other) currentPlaceholders"

text \<open>
  The \<open>for\<close> loop of one pass over the sorted placeholders; the state is \<open>result\<close> and
  \<open>lastResolvedValue\<close> (\<open>null\<close> at first, as in the source).
\<close>

fun resolvePass ::
  "'c PluginRegistry \<Rightarrow> 'c ProcessOptions \<Rightarrow> string list \<Rightarrow> bool \<Rightarrow> string list \<Rightarrow>
   string list \<Rightarrow> string \<times> jsvalue \<Rightarrow> error + (string \<times> jsvalue)" where
  "resolvePass registry options path isPurePlaceholder currentPlaceholders [] state = Inr state"
| "resolvePass registry options path isPurePlaceholder currentPlaceholders (placeholder # others)
     (result, lastResolvedValue) =
     (if \<not> containsOthers currentPlaceholders placeholder then
        (case resolvePlaceholder registry options placeholder path of
           Inl e \<Rightarrow> Inl e
         | Inr resolved \<Rightarrow>
             resolvePass registry options path isPurePlaceholder currentPlaceholders others
               (replaceAll result placeholder (toStr resolved),
                if isPurePlaceholder \<and> length currentPlaceholders = 1 then resolved
                else lastResolvedValue))
      else resolvePass registry options path isPurePlaceholder currentPlaceholders others
             (result, lastResolvedValue))"

text \<open>The \<open>while\<close> loop of \<open>processStringValue\<close>; it returns \<open>result\<close>,
  \<open>lastResolvedValue\<close> and \<open>iterations\<close> as they stand when it ends.\<close>

function jsonLoop ::
  "'c PluginRegistry \<Rightarrow> 'c ProcessOptions \<Rightarrow> string list \<Rightarrow> bool \<Rightarrow> string \<Rightarrow> string \<Rightarrow>
   nat \<Rightarrow> jsvalue \<Rightarrow> error + (string \<times> jsvalue \<times> nat)" where
  "jsonLoop registry options path isPurePlaceholder result previousResult iterations
     lastResolvedValue =
     (if result \<noteq> previousResult \<and> iterations < 10 then
        (let currentPlaceholders = findPlaceholders result in
         if currentPlaceholders = [] then Inr (result, lastResolvedValue, iterations)
         else
           (case resolvePass registry options path isPurePlaceholder currentPlaceholders
                   (sortPlaceholdersByPosition result currentPlaceholders)
                   (result, lastResolvedValue) of
              Inl e \<Rightarrow> Inl e
            | Inr (result', lastResolvedValue') \<Rightarrow>
                jsonLoop registry options path isPurePlaceholder result' result
                  (iterations + 1) lastResolvedValue'))
      else Inr (result, lastResolvedValue, iterations))"
  by pat_completeness auto
termination
  by (relation "measure (\<lambda>(registry, options, path, isPure, result, previousResult, iterations,
        lastResolvedValue). 10 - iterations)") auto

declare jsonLoop.simps [simp del]

definition processStringValue ::
  "'c PluginRegistry \<Rightarrow> 'c ProcessOptions \<Rightarrow> string \<Rightarrow> string list \<Rightarrow> error + jsvalue" where
  "processStringValue registry options v path =
     (let placeholders = findPlaceholders v in
      if placeholders = [] then Inr (JString v)
      else
        (let isPurePlaceholder = isPlaceholder v in
         if isPurePlaceholder \<and> length placeholders = 1 then
           resolvePlaceholder registry options v path
         else
           (case jsonLoop registry options path isPurePlaceholder v [] 0 JNull of
              Inl e \<Rightarrow> Inl e
            | Inr (result, lastResolvedValue, iterations) \<Rightarrow>
                if isPurePlaceholder then
                  (if lastResolvedValue \<noteq> JNull then Inr lastResolvedValue
                   else if isPlaceholder result then
                     resolvePlaceholder registry options result path
                   else Inr (JString result))
                else Inr (JString result))))"

text \<open>
  \<open>processed[key] = v\<close> on an object that started as \<open>{}\<close>. An ordinary key gets a new
  entry, or a new value in the entry it has. The key \<open>__proto__\<close> is the accessor
  inherited from \<open>Object.prototype\<close>: assigning to it calls the setter, which changes
  the prototype or does nothing, and the object gets no own entry. (\<open>JSON.parse\<close>
  defines its entries directly, so a parsed object can have \<open>__proto__\<close> among its own
  keys.)
\<close>

fun updateEntry :: "string \<Rightarrow> jsvalue \<Rightarrow> (string \<times> jsvalue) list \<Rightarrow> (string \<times> jsvalue) list" where
  "updateEntry k v [] = [(k, v)]"
| "updateEntry k v ((k', v') # kvs) =
     (if k' = k then (k, v) # kvs else (k', v') # updateEntry k v kvs)"

definition setProperty :: "(string \<times> jsvalue) list \<Rightarrow> string \<Rightarrow> jsvalue \<Rightarrow> (string \<times> jsvalue) list" where
  "setProperty processed k v = (if k = ''__proto__'' then processed else updateEntry k v processed)"

text \<open>\<open>processNode\<close>, with the loop over an array's elements (\<open>i\<close> the index, \<open>processed\<close>
  the array built so far) and the loop over an object's entries.\<close>

fun processNode ::
    "'c PluginRegistry \<Rightarrow> 'c ProcessOptions \<Rightarrow> jsvalue \<Rightarrow> string list \<Rightarrow> error + jsvalue"
  and processElements ::
    "'c PluginRegistry \<Rightarrow> 'c ProcessOptions \<Rightarrow> jsvalue list \<Rightarrow> nat \<Rightarrow> string list \<Rightarrow>
     jsvalue list \<Rightarrow> error + jsvalue list"
  and processEntries ::
    "'c PluginRegistry \<Rightarrow> 'c ProcessOptions \<Rightarrow> (string \<times> jsvalue) list \<Rightarrow> string list \<Rightarrow>
     (string \<times> jsvalue) list \<Rightarrow> error + (string \<times> jsvalue) list" where
  "processNode registry options JNull path = Inr JNull"
| "processNode registry options (JArray xs) path =
     (case processElements registry options xs 0 path [] of
        Inl e \<Rightarrow> Inl e | Inr processed \<Rightarrow> Inr (JArray processed))"
| "processNode registry options (JObject kvs) path =
     (case processEntries registry options kvs path [] of
        Inl e \<Rightarrow> Inl e | Inr processed \<Rightarrow> Inr (JObject processed))"
| "processNode registry options (JString s) path = processStringValue registry options s path"
| "processNode registry options (JBool b) path = Inr (JBool b)"
| "processNode registry options (JNumber n) path = Inr (JNumber n)"
| "processElements registry options [] i path processed = Inr processed"
| "processElements registry options (x # xs) i path processed =
     (case processNode registry options x (path @ [''['' @ showNat i @ '']'']) of
        Inl e \<Rightarrow> Inl e
      | Inr x' \<Rightarrow> processElements registry options xs (i + 1) path (processed @ [x']))"
| "processEntries registry options [] path processed = Inr processed"
| "processEntries registry options ((k, v) # kvs) path processed =
     (case processNode registry options v (path @ [k]) of
        Inl e \<Rightarrow> Inl e
      | Inr v' \<Rightarrow> processEntries registry options kvs path (setProperty processed k v'))"

section \<open>TextProcessor\<close>

definition resolveTextTry ::
  "'c PluginRegistry \<Rightarrow> 'c ProcessOptions \<Rightarrow> string \<Rightarrow> error + string" where
  "resolveTextTry registry options placeholder =
     (case parse placeholder of
        Inl e \<Rightarrow> Inl e
      | Inr parsed \<Rightarrow>
          if (case includePlugins options of
                None \<Rightarrow> False | Some inc \<Rightarrow> module parsed \<notin> set inc)
          then Inr placeholder
          else if (case excludePlugins options of
                     None \<Rightarrow> False | Some exc \<Rightarrow> module parsed \<in> set exc)
          then Inr placeholder
          else
            (case getPlugin registry (module parsed) of
               Inl e \<Rightarrow> Inl e
             | Inr plugin \<Rightarrow>
                 (case plugin parsed (context options) of
                    Inl e \<Rightarrow> Inl e
                  | Inr result \<Rightarrow>
                      (case applyTransforms registry (transforms parsed) result of
                         Inl e \<Rightarrow> Inl e
                       | Inr result' \<Rightarrow> Inr (toStr (value result'))))))"

definition resolvePlaceholderText ::
  "'c PluginRegistry \<Rightarrow> 'c ProcessOptions \<Rightarrow> string \<Rightarrow> error + string" where
  "resolvePlaceholderText registry options placeholder =
     (case resolveTextTry registry options placeholder of
        Inl (Error msg) \<Rightarrow>
          Inl (Error (''Failed to resolve placeholder '' @ [dquote] @ placeholder @ [dquote]
                      @ '': '' @ msg))
      | Inr v \<Rightarrow> Inr v)"

text \<open>The \<open>for\<close> loop of one pass of \<open>TextProcessor.process\<close>: every placeholder found,
  in the order found, and \<open>replace\<close> for the substitution.\<close>

fun textPass ::
  "'c PluginRegistry \<Rightarrow> 'c ProcessOptions \<Rightarrow> string list \<Rightarrow> string \<Rightarrow> error + string" where
  "textPass registry options [] result = Inr result"
| "textPass registry options (placeholder # placeholders) result =
     (case resolvePlaceholderText registry options placeholder of
        Inl e \<Rightarrow> Inl e
      | Inr resolved \<Rightarrow>
          textPass registry options placeholders (replaceFirst result placeholder resolved))"

function textLoop ::
  "'c PluginRegistry \<Rightarrow> 'c ProcessOptions \<Rightarrow> string \<Rightarrow> string \<Rightarrow> nat \<Rightarrow> error + (string \<times> nat)" where
  "textLoop registry options result previousResult iterations =
     (if result \<noteq> previousResult \<and> iterations < 10 then
        (let placeholders = findPlaceholders result in
         if placeholders = [] then Inr (result, iterations)
         else
           (case textPass registry options placeholders result of
              Inl e \<Rightarrow> Inl e
            | Inr result' \<Rightarrow> textLoop registry options result' result (iterations + 1)))
      else Inr (result, iterations))"
  by pat_completeness auto
termination
  by (relation "measure (\<lambda>(registry, options, result, previousResult, iterations).
        10 - iterations)") auto

declare textLoop.simps [simp del]

definition processText :: "'c PluginRegistry \<Rightarrow> 'c ProcessOptions \<Rightarrow> string \<Rightarrow> error + string" where
  "processText registry options text =
     (case textLoop registry options text [] 0 of
        Inl e \<Rightarrow> Inl e | Inr (result, iterations) \<Rightarrow> Inr result)"

section \<open>MockPlugin and the standard transforms\<close>

text \<open>\<open>toUpperCase\<close> and \<open>toLowerCase\<close> on the letters a to z; the other code units
  below 128 have no case.\<close>

definition toUpperCase :: "string \<Rightarrow> string" where
  "toUpperCase s =
     map (\<lambda>c. case map_of (zip ''abcdefghijklmnopqrstuvwxyz'' ''ABCDEFGHIJKLMNOPQRSTUVWXYZ'') c of
                 None \<Rightarrow> c | Some u \<Rightarrow> u) s"

definition toLowerCase :: "string \<Rightarrow> string" where
  "toLowerCase s =
     map (\<lambda>c. case map_of (zip ''ABCDEFGHIJKLMNOPQRSTUVWXYZ'' ''abcdefghijklmnopqrstuvwxyz'') c of
                 None \<Rightarrow> c | Some l \<Rightarrow> l) s"

text \<open>
  \<open>Number(s)\<close> where the result is an integer written in decimal digits: white space
  around it is dropped, the empty string is \<open>0\<close>, a sign may lead. \<open>None\<close> is \<open>NaN\<close>.
  The numerals JavaScript reads beyond these (fractions, exponents, hexadecimal,
  \<open>Infinity\<close>) have no counterpart among the numbers of this model.
\<close>

fun parseDigits :: "string \<Rightarrow> nat \<Rightarrow> nat option" where
  "parseDigits [] acc = Some acc"
| "parseDigits (c # cs) acc =
     (case map_of (zip ''0123456789'' [0, 1, 2, 3, 4, 5, 6, 7, 8, 9]) c of
        None \<Rightarrow> None
      | Some d \<Rightarrow> parseDigits cs (10 * acc + d))"

definition jsNumber :: "string \<Rightarrow> int option" where
  "jsNumber s =
     (case trim s of
        [] \<Rightarrow> Some 0
      | c # cs \<Rightarrow>
          if c = CHR ''-'' then
            (if cs = [] then None else map_option (\<lambda>n. - int n) (parseDigits cs 0))
          else if c = CHR ''+'' then
            (if cs = [] then None else map_option int (parseDigits cs 0))
          else map_option int (parseDigits (c # cs) 0))"

definition MockPlugin_resolve :: "'c plugin" where
  "MockPlugin_resolve parsed ctx =
     (if args parsed = [] then
        Inl (Error (''Mock plugin: action '' @ [squote] @ action parsed @ [squote]
                    @ '' requires at least one argument''))
      else
        (let v = hd (args parsed) in
         if action parsed = ''echo'' then Inr \<lparr>value = JString v, type = TString\<rparr>
         else if action parsed = ''uppercase'' then
           Inr \<lparr>value = JString (toUpperCase v), type = TString\<rparr>
         else if action parsed = ''reverse'' then Inr \<lparr>value = JString (rev v), type = TString\<rparr>
         else if action parsed = ''number'' then
           (case jsNumber v of
              None \<Rightarrow>
                Inl (Error (''Mock plugin: cannot convert '' @ [squote] @ v @ [squote]
                            @ '' to number''))
            | Some num \<Rightarrow> Inr \<lparr>value = JNumber num, type = TNumber\<rparr>)
         else if action parsed = ''constant'' then Inr \<lparr>value = JString v, type = TString\<rparr>
         else if action parsed = ''async'' then
           Inl (Error ''Async action should be handled by AsyncMockPlugin'')
         else
           Inl (Error (''Mock plugin: unknown action '' @ [squote] @ action parsed @ [squote]
                       @ ''. Available: echo, uppercase, reverse, number, constant''))))"

text \<open>\<open>ToBooleanTransform.apply\<close>.\<close>

definition ToBooleanTransform_apply :: transform where
  "ToBooleanTransform_apply input ps =
     (if type input = TBoolean then Inr input
      else
        Inr \<lparr>value = JBool
               (case value input of
                  JString s \<Rightarrow>
                    (let lower = trim (toLowerCase s) in
                     if lower \<in> set [''true'', ''yes'', ''1'', ''on'', ''y''] then True
                     else if lower \<in> set [''false'', ''no'', ''0'', ''off'', ''n'', []] then False
                     else s \<noteq> [])
                | JNumber n \<Rightarrow> n \<noteq> 0
                | JBool b \<Rightarrow> b
                | JNull \<Rightarrow> False
                | JArray xs \<Rightarrow> True
                | JObject kvs \<Rightarrow> True),
             type = TBoolean\<rparr>)"

text \<open>\<open>ToNumberTransform.apply\<close>; \<open>Number\<close> of an array or an object is \<open>Number\<close> of
  its string.\<close>

definition ToNumberTransform_apply :: transform where
  "ToNumberTransform_apply input ps =
     (if type input = TNumber then Inr input
      else
        (case value input of
           JNull \<Rightarrow> Inl (Error ''Cannot convert null or undefined to number'')
         | JBool b \<Rightarrow> Inr \<lparr>value = JNumber (if b then 1 else 0), type = TNumber\<rparr>
         | v \<Rightarrow>
             (case jsNumber (toStr v) of
                None \<Rightarrow>
                  Inl (Error (''Cannot convert '' @ [dquote] @ toStr v @ [dquote]
                              @ '' to number''))
              | Some n \<Rightarrow> Inr \<lparr>value = JNumber n, type = TNumber\<rparr>)))"

text \<open>The registry of the processors' tests: the mock plugin and two of the standard
  transforms; and options that set neither list.\<close>

definition mockRegistry :: "unit PluginRegistry" where
  "mockRegistry =
     \<lparr>plugins = [(''mock'', MockPlugin_resolve)],
      transformImpls =
        [(''toNumber'', ToNumberTransform_apply), (''toBoolean'', ToBooleanTransform_apply)]\<rparr>"

definition defaultOptions :: "unit ProcessOptions" where
  "defaultOptions = \<lparr>includePlugins = None, excludePlugins = None, context = ()\<rparr>"

section \<open>Properties of the parser\<close>

text \<open>Text in which \<open>splitByColon\<close> sees nothing but ordinary code units: no brace, no
  colon, no backslash.\<close>

definition plainText :: "string \<Rightarrow> bool" where
  "plainText s =
     list_all (\<lambda>c. c \<noteq> CHR ''{'' \<and> c \<noteq> CHR ''}'' \<and> c \<noteq> CHR '':'' \<and> c \<noteq> backslash) s"

lemma splitByColonLoop_plain:
  "plainText s \<Longrightarrow>
   splitByColonLoop (s @ rest) current depth parts =
   splitByColonLoop rest (current @ s) depth parts"
  by (induction s arbitrary: current) (auto simp: plainText_def)

text \<open>
  Claim C7 (escaped-colon fidelity). Wherever the loop of \<open>splitByColon\<close> stands, at any
  depth, a backslash followed by a colon appends a colon to the segment being read and
  closes no segment; so two pieces of plain text joined by an escaped colon split into
  one segment, with the colon in it. And \<open>{{time:calc:0:HH\:mm\:ss}}\<close> parses to the two
  arguments \<open>0\<close> and \<open>HH:mm:ss\<close>.
\<close>

theorem escaped_colon_fidelity:
  "splitByColonLoop (backslash # CHR '':'' # rest) current depth parts =
     splitByColonLoop rest (current @ '':'') depth parts \<and>
   (plainText x \<and> plainText y \<longrightarrow>
     splitByColon (x @ [backslash, CHR '':''] @ y) = [trim (x @ '':'' @ y)]) \<and>
   parse (''{{time:calc:0:HH'' @ [backslash] @ '':mm'' @ [backslash] @ '':ss}}'') =
     Inr \<lparr>original = ''{{time:calc:0:HH'' @ [backslash] @ '':mm'' @ [backslash] @ '':ss}}'',
          module = ''time'', action = ''calc'', args = [''0'', ''HH:mm:ss''],
          transforms = []\<rparr>"
proof (intro conjI impI)
  show "splitByColonLoop (backslash # CHR '':'' # rest) current depth parts =
     splitByColonLoop rest (current @ '':'') depth parts"
    by simp
  show "splitByColon (x @ [backslash, CHR '':''] @ y) = [trim (x @ '':'' @ y)]"
    if "plainText x \<and> plainText y"
    using that splitByColonLoop_plain [of y "[]"]
    by (simp add: splitByColon_def splitByColonLoop_plain)
  show "parse (''{{time:calc:0:HH'' @ [backslash] @ '':mm'' @ [backslash] @ '':ss}}'') =
     Inr \<lparr>original = ''{{time:calc:0:HH'' @ [backslash] @ '':mm'' @ [backslash] @ '':ss}}'',
          module = ''time'', action = ''calc'', args = [''0'', ''HH:mm:ss''],
          transforms = []\<rparr>"
    by code_simp
qed

theorem escaped_colon_fidelity_witness:
  "plainText ''HH'' \<and> plainText ''mm'' \<and>
   splitByColon (''HH'' @ [backslash, CHR '':''] @ ''mm'') = [''HH:mm'']"
  using escaped_colon_fidelity [of "[]" "[]" 0 "[]" "''HH''" "''mm''"]
  by (simp add: plainText_def trim_def isWhiteSpace_def)

lemma dropWhile_rev_hd:
  assumes "ys \<noteq> []" "\<not> P (hd ys)"
  shows "rev (dropWhile P (rev ys)) \<noteq> [] \<and> hd (rev (dropWhile P (rev ys))) = hd ys"
proof -
  obtain y ys' where ys: "ys = y # ys'" using assms(1) by (cases ys) auto
  have "dropWhile P (rev ys' @ [y]) = dropWhile P (rev ys') @ [y]"
    using assms(2) ys by (simp add: dropWhile_append)
  then show ?thesis using ys by simp
qed

lemma trim_aux:
  assumes "ys = [] \<or> \<not> P (hd ys)"
  shows "dropWhile P (rev (dropWhile P (rev ys))) = rev (dropWhile P (rev ys))"
proof (cases "ys = []")
  case True
  then show ?thesis by simp
next
  case False
  with assms have "\<not> P (hd ys)" by simp
  from dropWhile_rev_hd [of ys P, OF False this] this show ?thesis
    by (simp add: dropWhile_eq_self_iff)
qed

lemma trim_trim: "trim (trim s) = trim s"
proof -
  define ys where "ys = dropWhile isWhiteSpace s"
  have "ys = [] \<or> \<not> isWhiteSpace (hd ys)"
    unfolding ys_def using hd_dropWhile [of isWhiteSpace s] by blast
  from trim_aux [of ys isWhiteSpace, OF this] show ?thesis
    by (simp add: trim_def ys_def)
qed

lemma isPlaceholder_trim: "isPlaceholder (trim s) = isPlaceholder s"
  by (simp add: isPlaceholder_def trim_trim)

lemma splitByPipeLoop_nonempty:
  "splitByPipeLoop s current depth parts = (current', parts') \<Longrightarrow>
   s \<noteq> [] \<or> current \<noteq> [] \<or> parts \<noteq> [] \<Longrightarrow> current' \<noteq> [] \<or> parts' \<noteq> []"
  by (induction s current depth parts rule: splitByPipeLoop.induct) (auto split: if_splits)

lemma splitByPipe_nonempty: "s \<noteq> [] \<Longrightarrow> splitByPipe s \<noteq> []"
  using splitByPipeLoop_nonempty [of s "[]" 0 "[]"]
  by (auto simp: splitByPipe_def split: prod.splits)

lemma isPlaceholder_inner_nonempty: "isPlaceholder t \<Longrightarrow> slice (trim t) 2 (-2) \<noteq> []"
  by (auto simp: isPlaceholder_def slice_def Let_def)

lemma splitByColonLoop_trimmed:
  "splitByColonLoop s current depth parts = (current', parts') \<Longrightarrow>
   list_all (\<lambda>x. trim x = x) parts \<Longrightarrow> list_all (\<lambda>x. trim x = x) parts'"
  by (induction s current depth parts rule: splitByColonLoop.induct)
     (auto split: if_splits simp: trim_trim)

lemma splitByColon_trimmed: "list_all (\<lambda>x. trim x = x) (splitByColon s)"
  using splitByColonLoop_trimmed [of s "[]" 0 "[]"]
  by (auto simp: splitByColon_def trim_trim split: prod.splits)

text \<open>The main part \<open>parse\<close> hands to \<open>parseMainPart\<close>: the first part of the
  interior split at the pipes.\<close>

definition mainPartOf :: "string \<Rightarrow> string" where
  "mainPartOf token = hd (splitByPipe (slice (trim token) 2 (-2)))"

lemma parse_cases:
  "parse token =
     (if \<not> isPlaceholder token then Inl (Error (''Invalid placeholder format: '' @ token))
      else case parseMainPart (mainPartOf token) of
             Inl e \<Rightarrow> Inl e
           | Inr (m, a, as) \<Rightarrow>
               Inr \<lparr>original = trim token, module = m, action = a, args = as,
                    transforms = map parseTransform (tl (splitByPipe (slice (trim token) 2 (-2))))\<rparr>)"
proof (cases "isPlaceholder token")
  case False
  then show ?thesis by (simp add: parse_def isPlaceholder_trim)
next
  case True
  then have "splitByPipe (slice (trim token) 2 (-2)) \<noteq> []"
    by (intro splitByPipe_nonempty isPlaceholder_inner_nonempty)
  then obtain mp tps where "splitByPipe (slice (trim token) 2 (-2)) = mp # tps"
    by (cases "splitByPipe (slice (trim token) 2 (-2))") auto
  with True show ?thesis
    by (auto simp: parse_def isPlaceholder_trim trim_trim mainPartOf_def
             split: sum.splits prod.splits)
qed

text \<open>
  Claim C3 (parser malformedness), as amended. \<open>parse\<close> fails exactly when
  \<open>isPlaceholder\<close> is false or the main part splits at its colons into fewer than two
  parts. What it returns has the first part as module, the second as action and the rest
  as arguments, each without white space at either end. The code does not ask that module
  and action be non-empty: \<open>{{::}}\<close> parses, with both empty.
\<close>

theorem parse_malformed:
  "((\<exists>e. parse token = Inl e) \<longleftrightarrow>
      (\<not> isPlaceholder token \<or> length (splitByColon (mainPartOf token)) < 2)) \<and>
   (parse token = Inr p \<longrightarrow>
      module p = splitByColon (mainPartOf token) ! 0 \<and>
      action p = splitByColon (mainPartOf token) ! 1 \<and>
      args p = drop 2 (splitByColon (mainPartOf token)) \<and>
      trim (module p) = module p \<and> trim (action p) = action p)"
proof -
  let ?parts = "splitByColon (mainPartOf token)"
  have tr: "list_all (\<lambda>x. trim x = x) ?parts" by (rule splitByColon_trimmed)
  have tn: "n < length ?parts \<Longrightarrow> trim (?parts ! n) = ?parts ! n" for n
    using tr by (simp add: list_all_length)
  have t0: "trim (?parts ! 0) = ?parts ! 0" if "2 \<le> length ?parts"
    using that by (intro tn) linarith
  have t1: "trim (?parts ! 1) = ?parts ! 1" if "2 \<le> length ?parts"
    using that by (intro tn) linarith
  have t2: "map trim (drop 2 ?parts) = drop 2 ?parts"
    using tr by (auto simp: list_all_iff intro!: map_idI dest: in_set_dropD)
  have ne: "2 \<le> length ?parts \<Longrightarrow> ?parts \<noteq> []"
    by (cases ?parts) simp_all
  show ?thesis
    using t0 t1 t2 ne
    by (auto simp: parse_cases parseMainPart_def Let_def split: if_splits)
qed

theorem parse_malformed_witness:
  "isPlaceholder ''{{gen:uuid}}'' \<and>
   parse ''{{gen:uuid}}'' =
     Inr \<lparr>original = ''{{gen:uuid}}'', module = ''gen'', action = ''uuid'', args = [],
          transforms = []\<rparr> \<and>
   splitByColon (mainPartOf ''{{gen:uuid}}'') = [''gen'', ''uuid''] \<and>
   length (splitByColon (mainPartOf ''{{gen}}'')) < 2 \<and>
   (\<exists>e. parse ''{{gen}}'' = Inl e)"
proof -
  have a: "isPlaceholder ''{{gen:uuid}}''"
    by code_simp
  have b: "parse ''{{gen:uuid}}'' =
     Inr \<lparr>original = ''{{gen:uuid}}'', module = ''gen'', action = ''uuid'', args = [],
          transforms = []\<rparr>"
    by code_simp
  have c: "splitByColon (mainPartOf ''{{gen:uuid}}'') = [''gen'', ''uuid'']"
    by code_simp
  have d: "length (splitByColon (mainPartOf ''{{gen}}'')) < 2"
    by code_simp
  from parse_malformed [of "''{{gen}}''"] d have "\<exists>e. parse ''{{gen}}'' = Inl e"
    by blast
  with a b c d show ?thesis
    by blast
qed

theorem parse_empty_module_counterexample:
  "parse ''{{::}}'' =
     Inr \<lparr>original = ''{{::}}'', module = [], action = [], args = [], transforms = []\<rparr>"
  by code_simp

section \<open>Properties of the string operations\<close>

lemma indexOfFrom_shift: "indexOfFrom s p i = -1 \<longleftrightarrow> indexOfFrom s p j = -1"
  by (induction s arbitrary: i j) auto

lemma not_includes_Cons:
  "\<not> includesStr (c # cs) p \<Longrightarrow> \<not> prefix p (c # cs) \<and> \<not> includesStr cs p"
  using indexOfFrom_shift [of cs p "Suc 0" 0]
  by (auto simp: includesStr_def indexOf_def split: if_splits)














section \<open>Selective filtering\<close>

text \<open>The two checks of \<open>resolvePlaceholder\<close> on the lists of the options, the include
  list first.\<close>

definition filteredOut :: "'c ProcessOptions \<Rightarrow> string \<Rightarrow> bool" where
  "filteredOut options m =
     ((case includePlugins options of None \<Rightarrow> False | Some inc \<Rightarrow> m \<notin> set inc) \<or>
      (case excludePlugins options of None \<Rightarrow> False | Some exc \<Rightarrow> m \<in> set exc))"





section \<open>The scanner after an unmatched closing pair\<close>

text \<open>Text without a brace.\<close>

definition braceFree :: "string \<Rightarrow> bool" where
  "braceFree s = list_all (\<lambda>c. c \<noteq> CHR ''{'' \<and> c \<noteq> CHR ''}'') s"

lemma findLoop_braceFree:
  "braceFree x \<Longrightarrow>
   findPlaceholdersLoop content (x @ rest) i depth start ps =
   findPlaceholdersLoop content rest (i + length x) depth start ps"
  by (induction x arbitrary: i) (auto simp: braceFree_def)

lemma findLoop_open:
  "findPlaceholdersLoop content (CHR ''{'' # CHR ''{'' # rest) i depth start ps =
   findPlaceholdersLoop content rest (i + 2) (depth + 1) (if depth = 0 then int i else start) ps"
  by simp

lemma findLoop_close_skip:
  "depth \<noteq> 1 \<or> start = -1 \<Longrightarrow>
   findPlaceholdersLoop content (CHR ''}'' # CHR ''}'' # rest) i depth start ps =
   findPlaceholdersLoop content rest (i + 2) (depth - 1) start ps"
  by auto

lemma findPlaceholders_unmatched_close:
  assumes "braceFree pre" "braceFree mid" "braceFree body"
  shows "findPlaceholders (pre @ ''}}'' @ mid @ ''{{'' @ body @ ''}}'') = []"
proof -
  have "findPlaceholdersLoop content (pre @ ''}}'' @ mid @ ''{{'' @ body @ ''}}'') 0 0 (-1) [] = []"
    for content
    using assms
    by (simp add: findLoop_braceFree findLoop_close_skip findLoop_open del: findPlaceholdersLoop.simps(2))
  then show ?thesis
    by (simp add: findPlaceholders_def findPlaceholdersRecursive_def del: findPlaceholdersLoop.simps)
qed

lemma processStringValue_no_placeholders:
  "findPlaceholders s = [] \<Longrightarrow> processStringValue registry options s path = Inr (JString s)"
  by (simp add: processStringValue_def)

lemma processText_no_placeholders:
  "findPlaceholders s = [] \<Longrightarrow> processText registry options s = Inr s"
  by (simp add: processText_def textLoop.simps)

text \<open>
  Claim C10 (an unmatched closing pair hides the tokens after it). A closing pair met at
  depth zero takes the depth to \<open>-1\<close>; the opening pair of the next token then finds a
  depth other than zero and records no start, and its closing pair takes the depth from
  zero to \<open>-1\<close> again. So with brace-free text \<open>pre\<close>, \<open>mid\<close> and \<open>body\<close>, nothing is
  found in \<open>pre }} mid {{body}}\<close>, and both processors return the string untouched.
  \<open>findPlaceholders("}}{{a:b:1}}")\<close> is empty.
\<close>

theorem unmatched_close_hides_tokens:
  "findPlaceholders ''}}{{a:b:1}}'' = [] \<and>
   (braceFree pre \<and> braceFree mid \<and> braceFree body \<longrightarrow>
      findPlaceholders (pre @ ''}}'' @ mid @ ''{{'' @ body @ ''}}'') = [] \<and>
      processStringValue registry options (pre @ ''}}'' @ mid @ ''{{'' @ body @ ''}}'') path =
        Inr (JString (pre @ ''}}'' @ mid @ ''{{'' @ body @ ''}}'')) \<and>
      processText registry options (pre @ ''}}'' @ mid @ ''{{'' @ body @ ''}}'') =
        Inr (pre @ ''}}'' @ mid @ ''{{'' @ body @ ''}}''))"
proof (intro conjI impI)
  show "findPlaceholders ''}}{{a:b:1}}'' = []"
    by code_simp
next
  assume "braceFree pre \<and> braceFree mid \<and> braceFree body"
  then have e: "findPlaceholders (pre @ ''}}'' @ mid @ ''{{'' @ body @ ''}}'') = []"
    by (intro findPlaceholders_unmatched_close) simp_all
  then show "findPlaceholders (pre @ ''}}'' @ mid @ ''{{'' @ body @ ''}}'') = []" .
  from e show "processStringValue registry options (pre @ ''}}'' @ mid @ ''{{'' @ body @ ''}}'') path =
        Inr (JString (pre @ ''}}'' @ mid @ ''{{'' @ body @ ''}}''))"
    by (rule processStringValue_no_placeholders)
  from e show "processText registry options (pre @ ''}}'' @ mid @ ''{{'' @ body @ ''}}'') =
        Inr (pre @ ''}}'' @ mid @ ''{{'' @ body @ ''}}'')"
    by (rule processText_no_placeholders)
qed

theorem unmatched_close_hides_tokens_witness:
  "braceFree ''x '' \<and> braceFree '' '' \<and> braceFree ''mock:echo:a'' \<and>
   findPlaceholders ''x }} {{mock:echo:a}}'' = [] \<and>
   processStringValue mockRegistry defaultOptions ''x }} {{mock:echo:a}}'' [] =
     Inr (JString ''x }} {{mock:echo:a}}'') \<and>
   processText mockRegistry defaultOptions ''x }} {{mock:echo:a}}'' = Inr ''x }} {{mock:echo:a}}''"
  using unmatched_close_hides_tokens [of "''x ''" "'' ''" "''mock:echo:a''" mockRegistry defaultOptions "[]"]
  by (simp add: braceFree_def)

section \<open>Failure on an unknown module\<close>

text \<open>A leaf whose processing resolves the token in its first step: the leaf is the
  token and goes the pure way, or the token is among the placeholders found in the leaf
  and contains none of the others, so the first pass resolves it.\<close>

definition resolvedAtOnce :: "string \<Rightarrow> string \<Rightarrow> bool" where
  "resolvedAtOnce token leaf =
     (if isPlaceholder leaf \<and> length (findPlaceholders leaf) = 1 then leaf = token
      else token \<in> set (findPlaceholders leaf) \<and> \<not> containsOthers (findPlaceholders leaf) token)"

text \<open>A document with a string leaf that does so.\<close>

fun attempts :: "string \<Rightarrow> jsvalue \<Rightarrow> bool" where
  "attempts token (JString s) = resolvedAtOnce token s"
| "attempts token (JArray xs) = (\<exists>x \<in> set xs. attempts token x)"
| "attempts token (JObject kvs) = (\<exists>kv \<in> set kvs. attempts token (snd kv))"
| "attempts token JNull = False"
| "attempts token (JBool b) = False"
| "attempts token (JNumber n) = False"

text \<open>The message of \<open>getPlugin\<close> for a name the registry does not have.\<close>

definition unknownModuleMessage :: "'c PluginRegistry \<Rightarrow> string \<Rightarrow> string" where
  "unknownModuleMessage registry m =
     ''Plugin '' @ [squote] @ m @ [squote] @ '' not found. Available plugins: '' @
     (if join '', '' (map fst (plugins registry)) = [] then ''none''
      else join '', '' (map fst (plugins registry)))"

lemma resolve_unknown:
  assumes "parse token = Inr parsed" "\<not> filteredOut options (module parsed)"
    "map_of (plugins registry) (module parsed) = None"
  shows "resolvePlaceholder registry options token path =
           Inl (Error (''Failed to resolve placeholder '' @ [dquote] @ token @ [dquote] @
                       '' at path '' @ [dquote] @ join ''.'' path @ [dquote] @ '': '' @
                       unknownModuleMessage registry (module parsed)))"
    and "resolvePlaceholderText registry options token =
           Inl (Error (''Failed to resolve placeholder '' @ [dquote] @ token @ [dquote] @ '': '' @
                       unknownModuleMessage registry (module parsed)))"
  using assms
  by (auto simp: filteredOut_def resolvePlaceholder_def resolveJsonTry_def getPlugin_def
        resolvePlaceholderText_def resolveTextTry_def unknownModuleMessage_def Let_def
        split: option.splits)

lemma set_insertBy: "set (insertBy cmp x xs) = insert x (set xs)"
  by (induction xs) auto

lemma set_sortBy: "set (sortBy cmp xs) = set xs"
  by (induction xs) (auto simp: set_insertBy)

lemma set_sortPlaceholdersByPosition:
  "set (sortPlaceholdersByPosition content phs) = set phs"
  by (force simp: sortPlaceholdersByPosition_def set_sortBy)

lemma resolvePass_fails:
  assumes "\<And>p. \<exists>e. resolvePlaceholder registry options token p = Inl e"
    and "token \<in> set phs" "\<not> containsOthers current token"
  shows "\<exists>e. resolvePass registry options path pure current phs st = Inl e"
  using assms(2)
proof (induction phs arbitrary: st)
  case Nil
  then show ?case by simp
next
  case (Cons ph phs)
  obtain result last where st: "st = (result, last)" by (cases st)
  show ?case
  proof (cases "ph = token")
    case True
    with assms(1) [of path] assms(3) st show ?thesis by auto
  next
    case False
    with Cons.prems have "token \<in> set phs" by simp
    from Cons.IH [OF this] st show ?thesis
      by (auto split: sum.splits)
  qed
qed

lemma textPass_fails:
  assumes "\<exists>e. resolvePlaceholderText registry options token = Inl e"
    and "token \<in> set phs"
  shows "\<exists>e. textPass registry options phs result = Inl e"
  using assms(2)
proof (induction phs arbitrary: result)
  case Nil
  then show ?case by simp
next
  case (Cons ph phs)
  show ?case
  proof (cases "ph = token")
    case True
    with assms(1) show ?thesis by auto
  next
    case False
    with Cons.prems have "token \<in> set phs" by simp
    from Cons.IH [OF this] show ?thesis
      by (auto split: sum.splits)
  qed
qed

lemma findPlaceholders_Nil [simp]: "findPlaceholders [] = []"
  by (simp add: findPlaceholders_def findPlaceholdersRecursive_def)

lemma processStringValue_fails:
  assumes "\<And>p. \<exists>e. resolvePlaceholder registry options token p = Inl e"
    and "resolvedAtOnce token leaf"
  shows "\<exists>e. processStringValue registry options leaf path = Inl e"
proof (cases "isPlaceholder leaf \<and> length (findPlaceholders leaf) = 1")
  case True
  with assms(2) have "leaf = token" by (simp add: resolvedAtOnce_def)
  with True assms(1) [of path] show ?thesis
    by (auto simp: processStringValue_def Let_def)
next
  case False
  with assms(2) have tok: "token \<in> set (findPlaceholders leaf)"
    and nc: "\<not> containsOthers (findPlaceholders leaf) token"
    by (auto simp: resolvedAtOnce_def)
  from tok have ne: "findPlaceholders leaf \<noteq> []" by auto
  then have leaf: "leaf \<noteq> []" by auto
  from tok have "token \<in> set (sortPlaceholdersByPosition leaf (findPlaceholders leaf))"
    by (simp add: set_sortPlaceholdersByPosition)
  from resolvePass_fails [OF assms(1) this nc]
  obtain e where "resolvePass registry options path (isPlaceholder leaf) (findPlaceholders leaf)
      (sortPlaceholdersByPosition leaf (findPlaceholders leaf)) (leaf, JNull) = Inl e"
    by blast
  then have "jsonLoop registry options path (isPlaceholder leaf) leaf [] 0 JNull = Inl e"
    using ne leaf by (subst jsonLoop.simps) (simp add: Let_def)
  with False ne show ?thesis
    by (auto simp: processStringValue_def Let_def)
qed

lemma processText_fails:
  assumes "\<exists>e. resolvePlaceholderText registry options token = Inl e"
    and "token \<in> set (findPlaceholders text)"
  shows "\<exists>e. processText registry options text = Inl e"
proof -
  from assms(2) have ne: "findPlaceholders text \<noteq> []" by auto
  then have t: "text \<noteq> []" by auto
  from textPass_fails [OF assms] obtain e
    where "textPass registry options (findPlaceholders text) text = Inl e" by blast
  then have "textLoop registry options text [] 0 = Inl e"
    using ne t by (subst textLoop.simps) (simp add: Let_def)
  then show ?thesis by (simp add: processText_def)
qed

lemma processElements_fails:
  assumes "\<forall>x \<in> set xs. \<forall>p. attempts token x \<longrightarrow> (\<exists>e. processNode registry options x p = Inl e)"
    and "\<exists>x \<in> set xs. attempts token x"
  shows "\<exists>e. processElements registry options xs i path processed = Inl e"
  using assms
proof (induction xs arbitrary: i processed)
  case Nil
  then show ?case by simp
next
  case (Cons x xs)
  show ?case
  proof (cases "processNode registry options x (path @ [''['' @ showNat i @ '']''])")
    case (Inl e)
    then show ?thesis by simp
  next
    case (Inr x')
    have "\<not> attempts token x"
    proof
      assume "attempts token x"
      moreover from Cons.prems(1)
      have "\<forall>p. attempts token x \<longrightarrow> (\<exists>e. processNode registry options x p = Inl e)"
        by simp
      ultimately have "\<exists>e. processNode registry options x (path @ [''['' @ showNat i @ '']'']) = Inl e"
        by blast
      with Inr show False by simp
    qed
    with Cons.prems have "\<exists>x \<in> set xs. attempts token x"
      and "\<forall>x \<in> set xs. \<forall>p. attempts token x \<longrightarrow> (\<exists>e. processNode registry options x p = Inl e)"
      by auto
    from Cons.IH [OF this(2) this(1)] Inr show ?thesis by simp
  qed
qed

lemma processEntries_fails:
  assumes "\<forall>kv \<in> set kvs. \<forall>p. attempts token (snd kv) \<longrightarrow>
             (\<exists>e. processNode registry options (snd kv) p = Inl e)"
    and "\<exists>kv \<in> set kvs. attempts token (snd kv)"
  shows "\<exists>e. processEntries registry options kvs path processed = Inl e"
  using assms
proof (induction kvs arbitrary: processed)
  case Nil
  then show ?case by simp
next
  case (Cons kv kvs)
  obtain k v where kv: "kv = (k, v)" by (cases kv)
  show ?case
  proof (cases "processNode registry options v (path @ [k])")
    case (Inl e)
    with kv show ?thesis by simp
  next
    case (Inr v')
    have "\<not> attempts token v"
    proof
      assume "attempts token v"
      moreover from Cons.prems(1) kv
      have "\<forall>p. attempts token v \<longrightarrow> (\<exists>e. processNode registry options v p = Inl e)"
        by simp
      ultimately have "\<exists>e. processNode registry options v (path @ [k]) = Inl e"
        by blast
      with Inr show False by simp
    qed
    with Cons.prems kv have "\<exists>kv \<in> set kvs. attempts token (snd kv)"
      and "\<forall>kv \<in> set kvs. \<forall>p. attempts token (snd kv) \<longrightarrow>
             (\<exists>e. processNode registry options (snd kv) p = Inl e)"
      by auto
    from Cons.IH [OF this(2) this(1)] Inr kv show ?thesis by simp
  qed
qed

lemma processNode_fails:
  assumes "\<And>p. \<exists>e. resolvePlaceholder registry options token p = Inl e"
  shows "attempts token doc \<Longrightarrow> \<exists>e. processNode registry options doc path = Inl e"
proof (induction doc arbitrary: path)
  case (JString s)
  then show ?case
    using processStringValue_fails [OF assms, of s path] by simp
next
  case (JArray xs)
  then have "\<exists>e. processElements registry options xs 0 path [] = Inl e"
    by (intro processElements_fails) auto
  then show ?case by auto
next
  case (JObject kvs)
  have "\<exists>e. processEntries registry options kvs path [] = Inl e"
  proof (rule processEntries_fails)
    show "\<forall>kv \<in> set kvs. \<forall>p. attempts token (snd kv) \<longrightarrow>
             (\<exists>e. processNode registry options (snd kv) p = Inl e)"
      using JObject.IH by (auto simp: snds.simps)
    show "\<exists>kv \<in> set kvs. attempts token (snd kv)"
      using JObject.prems by simp
  qed
  then show ?case by auto
qed simp_all

text \<open>
  Claim C5 (unknown-module failure). For a token that parses, whose module the options do
  not filter out and the registry does not have: \<open>resolvePlaceholder\<close> fails, and its
  message holds the token, the path joined by dots (in JSON mode), the module's name and
  the registered names, or \<open>none\<close>. A document with a leaf that resolves the token makes
  \<open>processNode\<close> fail as a whole, and a text in which the token is found makes the text
  processor fail: the result is an error, never a partly processed document.
\<close>

theorem unknown_module_failure:
  "parse token = Inr parsed \<and> \<not> filteredOut options (module parsed) \<and>
   map_of (plugins registry) (module parsed) = None \<longrightarrow>
     resolvePlaceholder registry options token path =
       Inl (Error (''Failed to resolve placeholder '' @ [dquote] @ token @ [dquote] @
                   '' at path '' @ [dquote] @ join ''.'' path @ [dquote] @ '': Plugin '' @
                   [squote] @ module parsed @ [squote] @ '' not found. Available plugins: '' @
                   (if join '', '' (map fst (plugins registry)) = [] then ''none''
                    else join '', '' (map fst (plugins registry))))) \<and>
     resolvePlaceholderText registry options token =
       Inl (Error (''Failed to resolve placeholder '' @ [dquote] @ token @ [dquote] @
                   '': Plugin '' @
                   [squote] @ module parsed @ [squote] @ '' not found. Available plugins: '' @
                   (if join '', '' (map fst (plugins registry)) = [] then ''none''
                    else join '', '' (map fst (plugins registry))))) \<and>
     (attempts token doc \<longrightarrow> (\<exists>e. processNode registry options doc path = Inl e)) \<and>
     (token \<in> set (findPlaceholders str) \<longrightarrow> (\<exists>e. processText registry options str = Inl e))"
proof (intro impI, elim conjE)
  assume a: "parse token = Inr parsed" "\<not> filteredOut options (module parsed)"
    "map_of (plugins registry) (module parsed) = None"
  note r = resolve_unknown [OF a]
  have j: "\<exists>e. resolvePlaceholder registry options token p = Inl e" for p
    using r(1) [of p] by blast
  have t: "\<exists>e. resolvePlaceholderText registry options token = Inl e"
    using r(2) by blast
  have d: "attempts token doc \<longrightarrow> (\<exists>e. processNode registry options doc path = Inl e)"
    using processNode_fails [of registry options token doc path] j by blast
  have x: "token \<in> set (findPlaceholders str) \<longrightarrow> (\<exists>e. processText registry options str = Inl e)"
    using processText_fails [OF t] by blast
  from r(1) [of path] r(2) d x show "resolvePlaceholder registry options token path =
       Inl (Error (''Failed to resolve placeholder '' @ [dquote] @ token @ [dquote] @
                   '' at path '' @ [dquote] @ join ''.'' path @ [dquote] @ '': Plugin '' @
                   [squote] @ module parsed @ [squote] @ '' not found. Available plugins: '' @
                   (if join '', '' (map fst (plugins registry)) = [] then ''none''
                    else join '', '' (map fst (plugins registry))))) \<and>
     resolvePlaceholderText registry options token =
       Inl (Error (''Failed to resolve placeholder '' @ [dquote] @ token @ [dquote] @
                   '': Plugin '' @
                   [squote] @ module parsed @ [squote] @ '' not found. Available plugins: '' @
                   (if join '', '' (map fst (plugins registry)) = [] then ''none''
                    else join '', '' (map fst (plugins registry))))) \<and>
     (attempts token doc \<longrightarrow> (\<exists>e. processNode registry options doc path = Inl e)) \<and>
     (token \<in> set (findPlaceholders str) \<longrightarrow> (\<exists>e. processText registry options str = Inl e))"
    by (simp add: unknownModuleMessage_def)
qed

theorem unknown_module_failure_witness:
  "parse ''{{unknown:action:arg}}'' =
     Inr \<lparr>original = ''{{unknown:action:arg}}'', module = ''unknown'', action = ''action'',
          args = [''arg''], transforms = []\<rparr> \<and>
   map_of (plugins mockRegistry) ''unknown'' = None \<and>
   attempts ''{{unknown:action:arg}}''
     (JObject [(''user'', JArray [JNumber 1, JString ''age {{unknown:action:arg}}''])]) \<and>
   ''{{unknown:action:arg}}'' \<in> set (findPlaceholders ''age {{unknown:action:arg}}'') \<and>
   (\<exists>e. processNode mockRegistry defaultOptions
      (JObject [(''user'', JArray [JNumber 1, JString ''age {{unknown:action:arg}}''])]) [] = Inl e) \<and>
   (\<exists>e. processText mockRegistry defaultOptions ''age {{unknown:action:arg}}'' = Inl e) \<and>
   processNode mockRegistry defaultOptions
      (JObject [(''user'', JArray [JNumber 1, JString ''{{unknown:action:arg}}''])]) [] =
     Inl (Error (''Failed to resolve placeholder '' @ [dquote] @ ''{{unknown:action:arg}}'' @
                 [dquote] @ '' at path '' @ [dquote] @ ''user.[1]'' @ [dquote] @
                 '': Plugin '' @ [squote] @ ''unknown'' @ [squote] @
                 '' not found. Available plugins: mock''))"
proof -
  let ?p = "\<lparr>original = ''{{unknown:action:arg}}'', module = ''unknown'', action = ''action'',
          args = [''arg''], transforms = []\<rparr>"
  let ?doc = "JObject [(''user'', JArray [JNumber 1, JString ''age {{unknown:action:arg}}''])]"
  have a: "parse ''{{unknown:action:arg}}'' = Inr ?p"
    by code_simp
  have b: "map_of (plugins mockRegistry) ''unknown'' = None"
    by code_simp
  have c: "\<not> filteredOut defaultOptions ''unknown''"
    by code_simp
  have d: "attempts ''{{unknown:action:arg}}'' ?doc"
    by code_simp
  have e: "''{{unknown:action:arg}}'' \<in> set (findPlaceholders ''age {{unknown:action:arg}}'')"
    by code_simp
  have f: "processNode mockRegistry defaultOptions
      (JObject [(''user'', JArray [JNumber 1, JString ''{{unknown:action:arg}}''])]) [] =
     Inl (Error (''Failed to resolve placeholder '' @ [dquote] @ ''{{unknown:action:arg}}'' @
                 [dquote] @ '' at path '' @ [dquote] @ ''user.[1]'' @ [dquote] @
                 '': Plugin '' @ [squote] @ ''unknown'' @ [squote] @
                 '' not found. Available plugins: mock''))"
    by code_simp
  from unknown_module_failure [of "''{{unknown:action:arg}}''" ?p defaultOptions mockRegistry
      "[]" ?doc "''age {{unknown:action:arg}}''"] a b c d e
  have "(\<exists>e. processNode mockRegistry defaultOptions ?doc [] = Inl e) \<and>
        (\<exists>e. processText mockRegistry defaultOptions ''age {{unknown:action:arg}}'' = Inl e)"
    by simp
  with a b d e f show ?thesis
    by blast
qed

section \<open>The bound on the passes\<close>






lemma textLoop_eleven_copies:
  "textLoop mockRegistry defaultOptions
     ''{{mock:echo:a}}{{mock:echo:a}}{{mock:echo:a}}{{mock:echo:a}}{{mock:echo:a}}{{mock:echo:a}}{{mock:echo:a}}{{mock:echo:a}}{{mock:echo:a}}{{mock:echo:a}}{{mock:echo:a}}''
     [] 0 = Inr (''aaaaaaaaaa{{mock:echo:a}}'', 10)"
  by code_simp


section \<open>Duplicates in text mode\<close>

text \<open>
  Claim C8 (text-mode replacement), at an input where the code departs from it. The text
  processor substitutes with \<open>replace\<close>, which changes the first occurrence only, so each
  pass removes one copy of a repeated token; after ten passes the eleventh copy of
  \<open>{{mock:echo:a}}\<close> is still in the result. It also resolves every placeholder found, the
  outer ones before the inner ones: \<open>{{mock:uppercase:{{mock:echo:hello}}}}\<close> becomes
  \<open>{{MOCK:ECHO:HELLO}}\<close> in the first pass and fails in the second.
\<close>

theorem text_mode_leaves_eleventh_copy:
  "processText mockRegistry defaultOptions
     ''{{mock:echo:a}}{{mock:echo:a}}{{mock:echo:a}}{{mock:echo:a}}{{mock:echo:a}}{{mock:echo:a}}{{mock:echo:a}}{{mock:echo:a}}{{mock:echo:a}}{{mock:echo:a}}{{mock:echo:a}}''
     = Inr ''aaaaaaaaaa{{mock:echo:a}}'' \<and>
   processText mockRegistry defaultOptions ''{{mock:uppercase:{{mock:echo:hello}}}}'' =
     Inl (Error (''Failed to resolve placeholder '' @ [dquote] @ ''{{MOCK:ECHO:HELLO}}'' @ [dquote]
                 @ '': Plugin '' @ [squote] @ ''MOCK'' @ [squote]
                 @ '' not found. Available plugins: mock'')) \<and>
   processStringValue mockRegistry defaultOptions ''{{mock:uppercase:{{mock:echo:hello}}}}'' [] =
     Inr (JString ''HELLO'')"
proof (intro conjI)
  show "processText mockRegistry defaultOptions
     ''{{mock:echo:a}}{{mock:echo:a}}{{mock:echo:a}}{{mock:echo:a}}{{mock:echo:a}}{{mock:echo:a}}{{mock:echo:a}}{{mock:echo:a}}{{mock:echo:a}}{{mock:echo:a}}{{mock:echo:a}}''
     = Inr ''aaaaaaaaaa{{mock:echo:a}}''"
    by (simp add: processText_def textLoop_eleven_copies)
  show "processText mockRegistry defaultOptions ''{{mock:uppercase:{{mock:echo:hello}}}}'' =
     Inl (Error (''Failed to resolve placeholder '' @ [dquote] @ ''{{MOCK:ECHO:HELLO}}'' @ [dquote]
                 @ '': Plugin '' @ [squote] @ ''MOCK'' @ [squote]
                 @ '' not found. Available plugins: mock''))"
    by code_simp
  show "processStringValue mockRegistry defaultOptions ''{{mock:uppercase:{{mock:echo:hello}}}}'' [] =
     Inr (JString ''HELLO'')"
    by code_simp
qed

section \<open>Documents without tokens\<close>

lemma findLoop_no_open:
  "\<not> includesStr rest ''{{'' \<Longrightarrow> depth \<le> 0 \<Longrightarrow>
   findPlaceholdersLoop content rest i depth start ps = ps"
proof (induction "length rest" arbitrary: rest i depth rule: less_induct)
  case less
  show ?case
  proof (cases rest)
    case Nil
    then show ?thesis by simp
  next
    case (Cons c cs)
    from not_includes_Cons [of c cs "''{{''"] less.prems(1) Cons
    have np: "\<not> prefix ''{{'' (c # cs)" and ni: "\<not> includesStr cs ''{{''"
      by simp_all
    show ?thesis
    proof (cases cs)
      case Nil
      with Cons show ?thesis by simp
    next
      case (Cons d ds)
      from not_includes_Cons [of d ds "''{{''"] ni Cons
      have ni2: "\<not> includesStr ds ''{{''" by simp
      have l1: "length cs < length rest" and l2: "length ds < length rest"
        using \<open>rest = c # cs\<close> Cons by simp_all
      have nopen: "\<not> (c = CHR ''{'' \<and> d = CHR ''{'')"
        using np Cons by auto
      show ?thesis
        using nopen less.prems(2) \<open>rest = c # cs\<close> Cons
          less.hyps [OF l1 ni, of depth "i + 1"]
          less.hyps [OF l2 ni2, of "depth - 1" "i + 2"]
        by auto
    qed
  qed
qed

lemma findPlaceholders_no_open: "\<not> includesStr s ''{{'' \<Longrightarrow> findPlaceholders s = []"
  by (simp add: findPlaceholders_def findPlaceholdersRecursive_def findLoop_no_open
           del: findPlaceholdersLoop.simps)

text \<open>A document in which no string leaf holds an opening or a closing pair, and whose objects
  have distinct keys, none of them \<open>__proto__\<close>.\<close>

fun plainDocument :: "jsvalue \<Rightarrow> bool" where
  "plainDocument (JString s) = (\<not> includesStr s ''{{'' \<and> \<not> includesStr s ''}}'')"
| "plainDocument (JArray xs) = list_all plainDocument xs"
| "plainDocument (JObject kvs) =
     (distinct (map fst kvs) \<and> ''__proto__'' \<notin> set (map fst kvs) \<and>
      list_all (\<lambda>kv. plainDocument (snd kv)) kvs)"
| "plainDocument JNull = True"
| "plainDocument (JBool b) = True"
| "plainDocument (JNumber n) = True"

lemma updateEntry_new: "k \<notin> fst ` set kvs \<Longrightarrow> updateEntry k v kvs = kvs @ [(k, v)]"
  by (induction kvs) auto

lemma processElements_identity:
  "\<forall>x \<in> set xs. \<forall>p. processNode registry options x p = Inr x \<Longrightarrow>
   processElements registry options xs i path processed = Inr (processed @ xs)"
  by (induction xs arbitrary: i processed) auto

lemma processEntries_identity:
  "\<forall>kv \<in> set kvs. \<forall>p. processNode registry options (snd kv) p = Inr (snd kv) \<Longrightarrow>
   distinct (map fst kvs) \<Longrightarrow> ''__proto__'' \<notin> fst ` set kvs \<Longrightarrow>
   fst ` set kvs \<inter> fst ` set processed = {} \<Longrightarrow>
   processEntries registry options kvs path processed = Inr (processed @ kvs)"
proof (induction kvs arbitrary: processed)
  case Nil
  then show ?case by simp
next
  case (Cons kv kvs)
  obtain k v where kv: "kv = (k, v)" by (cases kv)
  from Cons.prems kv have new: "k \<notin> fst ` set processed" and np: "k \<noteq> ''__proto__''"
    by auto
  have sp: "setProperty processed k v = processed @ [(k, v)]"
    using np updateEntry_new [OF new] by (simp add: setProperty_def)
  have "processEntries registry options kvs path (processed @ [(k, v)]) =
          Inr ((processed @ [(k, v)]) @ kvs)"
    using Cons.prems kv by (intro Cons.IH) auto
  moreover have "processNode registry options v (path @ [k]) = Inr v"
    using Cons.prems(1) kv by simp
  ultimately show ?case
    using kv sp by simp
qed

text \<open>
  Such a document comes back from \<open>processNode\<close> node for node as it went in.
\<close>

theorem token_free_identity:
  "plainDocument doc \<Longrightarrow> processNode registry options doc path = Inr doc"
proof (induction doc arbitrary: path)
  case (JString s)
  then show ?case
    by (simp add: findPlaceholders_no_open processStringValue_no_placeholders)
next
  case (JArray xs)
  then have "processElements registry options xs 0 path [] = Inr ([] @ xs)"
    by (intro processElements_identity) (auto simp: list_all_iff)
  then show ?case by simp
next
  case (JObject kvs)
  have "processEntries registry options kvs path [] = Inr ([] @ kvs)"
  proof (rule processEntries_identity)
    show "\<forall>kv\<in>set kvs. \<forall>p. processNode registry options (snd kv) p = Inr (snd kv)"
      using JObject by (auto simp: list_all_iff snds.simps)
  qed (use JObject.prems in auto)
  then show ?case by simp
qed simp_all

theorem token_free_identity_witness:
  "plainDocument (JObject [(''a'', JArray [JNumber 1, JString ''x {y} z'', JNull]), (''b'', JBool True)]) \<and>
   processNode mockRegistry defaultOptions
     (JObject [(''a'', JArray [JNumber 1, JString ''x {y} z'', JNull]), (''b'', JBool True)]) [] =
   Inr (JObject [(''a'', JArray [JNumber 1, JString ''x {y} z'', JNull]), (''b'', JBool True)])"
proof -
  have "plainDocument (JObject [(''a'', JArray [JNumber 1, JString ''x {y} z'', JNull]), (''b'', JBool True)])"
    by code_simp
  with token_free_identity [of "JObject [(''a'', JArray [JNumber 1, JString ''x {y} z'', JNull]), (''b'', JBool True)]" mockRegistry defaultOptions "[]"]
  show ?thesis by blast
qed

text \<open>
  Claim C9 (identity on token-free input), at an input where the code departs from it. The
  document \<open>{"__proto__": 1, "a": "x"}\<close> has no braces in its strings, and \<open>JSON.parse\<close>
  gives it both keys. \<open>processNode\<close> copies the entries by assignment, and the assignment
  to \<open>__proto__\<close> makes no entry: the result is \<open>{"a": "x"}\<close>.
\<close>

theorem proto_key_is_dropped:
  "processNode registry options (JObject [(''__proto__'', JNumber 1), (''a'', JString ''x'')]) path =
     Inr (JObject [(''a'', JString ''x'')])"
proof -
  have "findPlaceholders ''x'' = []"
    by code_simp
  then show ?thesis
    by (simp add: processStringValue_def setProperty_def)
qed

(* C1 *)

section \<open>Type preservation\<close>

text \<open>
  A leaf that \<open>isPlaceholder\<close> accepts and in which one placeholder is found is resolved
  as a whole, and the value comes back as the plugin and the transforms gave it.
\<close>

theorem pure_leaf_keeps_value:
  "isPlaceholder s \<and> length (findPlaceholders s) = 1 \<longrightarrow>
     processStringValue registry options s path = resolvePlaceholder registry options s path"
  by (auto simp: processStringValue_def Let_def)

theorem pure_leaf_keeps_value_witness:
  "isPlaceholder ''{{mock:number:42}}'' \<and> length (findPlaceholders ''{{mock:number:42}}'') = 1 \<and>
   resolvePlaceholder mockRegistry defaultOptions ''{{mock:number:42}}'' [] = Inr (JNumber 42) \<and>
   processStringValue mockRegistry defaultOptions ''{{mock:number:42}}'' [] = Inr (JNumber 42)"
proof -
  have a: "isPlaceholder ''{{mock:number:42}}''"
    by code_simp
  have b: "length (findPlaceholders ''{{mock:number:42}}'') = 1"
    by code_simp
  have c: "resolvePlaceholder mockRegistry defaultOptions ''{{mock:number:42}}'' [] =
           Inr (JNumber 42)"
    by code_simp
  from pure_leaf_keeps_value [of "''{{mock:number:42}}''" mockRegistry defaultOptions "[]"] a b c
  show ?thesis
    by simp
qed

text \<open>A leaf that \<open>isPlaceholder\<close> rejects comes back as a string.\<close>

theorem other_leaf_is_string:
  "\<not> isPlaceholder s \<and> processStringValue registry options s path = Inr v \<longrightarrow>
     typeOf v = TString"
  by (auto simp: processStringValue_def Let_def split: sum.splits if_splits)

theorem other_leaf_is_string_witness:
  "\<not> isPlaceholder ''Count: {{mock:number:42}}'' \<and>
   processStringValue mockRegistry defaultOptions ''Count: {{mock:number:42}}'' [] =
     Inr (JString ''Count: 42'') \<and>
   typeOf (JString ''Count: 42'') = TString"
proof -
  have a: "\<not> isPlaceholder ''Count: {{mock:number:42}}''"
    by code_simp
  have b: "processStringValue mockRegistry defaultOptions ''Count: {{mock:number:42}}'' [] =
     Inr (JString ''Count: 42'')"
    by code_simp
  from other_leaf_is_string [of "''Count: {{mock:number:42}}''" mockRegistry defaultOptions "[]"
      "JString ''Count: 42''"] a b
  show ?thesis
    by simp
qed

text \<open>
  Claim C1 (type preservation law), at an input where the code departs from it. The leaf
  \<open>{{mock:number:{{mock:echo:3}}}} and {{mock:echo:b}}\<close> is two tokens with text between
  them. It opens and closes with a pair of braces, so \<open>isPlaceholder\<close> accepts it. The
  first pass resolves the two innermost tokens and leaves \<open>{{mock:number:3}} and b\<close>; the
  second finds one placeholder, and since the leaf counted as pure, keeps its value as
  the value to return: the number 3, not the string \<open>3 and b\<close>.
\<close>

theorem interpolated_leaf_becomes_number:
  "isPlaceholder ''{{mock:number:{{mock:echo:3}}}} and {{mock:echo:b}}'' \<and>
   findPlaceholders ''{{mock:number:{{mock:echo:3}}}} and {{mock:echo:b}}'' =
     [''{{mock:number:{{mock:echo:3}}}}'', ''{{mock:echo:3}}'', ''{{mock:echo:b}}''] \<and>
   processNode mockRegistry defaultOptions
     (JObject [(''v'', JString ''{{mock:number:{{mock:echo:3}}}} and {{mock:echo:b}}'')]) [] =
     Inr (JObject [(''v'', JNumber 3)])"
  by code_simp

section \<open>Nested tokens\<close>

text \<open>A token \<open>{{x}}\<close>, and a token with one token nested in it, \<open>{{a{{c}}b}}\<close>.\<close>

definition simpleToken :: "string \<Rightarrow> string" where
  "simpleToken x = ''{{'' @ x @ ''}}''"

definition nestedToken :: "string \<Rightarrow> string \<Rightarrow> string \<Rightarrow> string" where
  "nestedToken a c b = ''{{'' @ a @ ''{{'' @ c @ ''}}'' @ b @ ''}}''"


lemma braceFree_append [simp]: "braceFree (x @ y) \<longleftrightarrow> braceFree x \<and> braceFree y"
  by (simp add: braceFree_def)

lemma simpleToken_not_braceFree [simp]: "\<not> braceFree (simpleToken x)"
  by (simp add: braceFree_def simpleToken_def)






lemma length_simpleToken [simp]: "length (simpleToken x) = length x + 4"
  by (simp add: simpleToken_def)

lemma length_nestedToken [simp]: "length (nestedToken a c b) = length a + length c + length b + 8"
  by (simp add: nestedToken_def)























end
